theory Spec2Isabelle
  imports Main
begin

section \<open>Python exceptions as values\<close>

text \<open>
  The notebooks contain no \<^verbatim>\<open>try\<close> statement: an exception raised inside a call
  leaves every enclosing call.  A computation that may raise returns \<open>pyerr + 'a\<close>, with
  \<open>Inl\<close> for the exception.
\<close>

datatype pyerr =
    KeyError
  | IndexError
  | TypeError
  | AttributeError
  | ValueError
  | ConnectionError

definition then_do :: "pyerr + 'a \<Rightarrow> ('a \<Rightarrow> pyerr + 'b) \<Rightarrow> pyerr + 'b" where
  "then_do m f = (case m of Inl e \<Rightarrow> Inl e | Inr x \<Rightarrow> f x)"

section \<open>Module 08, part 5: paging through a data portal\<close>

text \<open>
  \<^verbatim>\<open>
  def request_data(endpoint_url, limit=1000, offset=0, data=[]):
      url = endpoint_url + '?$limit={limit}&$offset={offset}'
      request_url = url.format(limit=limit, offset=offset)
      response = requests.get(request_url)
      rows = response.json()
      data.extend(rows)
      if len(rows) >= limit:
          data = request_data(endpoint_url, offset=offset+limit, data=data)
      return data
  \<close>
  A Python list is an object: a variable holds a reference to it and \<^verbatim>\<open>extend\<close>
  changes the object in place.  The store maps each reference to the contents of its list.
  The default value \<^verbatim>\<open>[]\<close> of \<^verbatim>\<open>data\<close> is evaluated once, when the
  \<^verbatim>\<open>def\<close> statement runs: every call that leaves \<^verbatim>\<open>data\<close> out receives the
  same list object, \<open>default_data\<close>.
\<close>

type_synonym ref = nat

type_synonym 'row store = "ref \<Rightarrow> 'row list"

text \<open>
  The portal stands for \<^verbatim>\<open>requests.get(request_url).json()\<close>.  The request URL is
  built from the endpoint, the limit and the offset, so the portal is a function of these
  three; it answers with the rows of one page, or the request raises.
\<close>

type_synonym 'row portal = "string \<Rightarrow> int \<Rightarrow> int \<Rightarrow> pyerr + 'row list"

definition default_data :: ref where
  "default_data = 0"

text \<open>The store right after the \<^verbatim>\<open>def\<close> statement has run: the default list is empty.\<close>

definition store_after_def :: "'row store" where
  "store_after_def = (\<lambda>r. [])"

text \<open>
  The recursive call passes \<^verbatim>\<open>offset\<close> and \<^verbatim>\<open>data\<close> but not \<^verbatim>\<open>limit\<close>,
  which is 1000 again from the second page on.  A portal that never serves a short page
  keeps the function running for ever: the result is \<open>None\<close> then.  (The interpreter's bound
  on the recursion depth is not modelled.)
\<close>

partial_function (option) request_data ::
  "'row portal \<Rightarrow> string \<Rightarrow> int \<Rightarrow> int \<Rightarrow> ref \<Rightarrow> 'row store \<Rightarrow> ((pyerr + ref) \<times> 'row store) option"
where
  "request_data get endpoint_url limit offset data st =
     (case get endpoint_url limit offset of
        Inl e \<Rightarrow> Some (Inl e, st)
      | Inr rows \<Rightarrow>
          (let st' = st(data := st data @ rows) in
           if int (length rows) \<ge> limit
           then request_data get endpoint_url 1000 (offset + limit) data st'
           else Some (Inr data, st')))"

text \<open>\<^verbatim>\<open>request_data(endpoint_url)\<close>: limit, offset and data are left at their defaults.\<close>

definition request_data_defaults ::
  "'row portal \<Rightarrow> string \<Rightarrow> 'row store \<Rightarrow> ((pyerr + ref) \<times> 'row store) option" where
  "request_data_defaults get endpoint_url st = request_data get endpoint_url 1000 0 default_data st"

text \<open>
  What the caller holds after \<^verbatim>\<open>data = request_data(endpoint_url)\<close>: the contents of
  the returned list, read by \<^verbatim>\<open>len(data)\<close> and \<^verbatim>\<open>pd.DataFrame(data)\<close>.
\<close>

definition returned_rows :: "((pyerr + ref) \<times> 'row store) option \<Rightarrow> (pyerr + 'row list) option" where
  "returned_rows res =
     (case res of
        None \<Rightarrow> None
      | Some (Inl e, st) \<Rightarrow> Some (Inl e)
      | Some (Inr r, st) \<Rightarrow> Some (Inr (st r)))"

text \<open>
  A portal in the manner of the one the notebook queries: each endpoint holds a table, and a
  request is answered with at most \<open>limit\<close> rows of it, starting at \<open>offset\<close>.
\<close>

definition paged :: "(string \<times> 'row list) list \<Rightarrow> 'row portal" where
  "paged tables endpoint_url limit offset =
     (case map_of tables endpoint_url of
        None \<Rightarrow> Inl ValueError
      | Some table \<Rightarrow> Inr (take (nat limit) (drop (nat offset) table)))"

text \<open>
  Two cells of the notebook, one after the other, each running
  \<^verbatim>\<open>data = request_data(endpoint_url)\<close> with its own endpoint.  An exception in the
  first cell does not end the session, and the store it leaves is the store the second cell
  starts from.  The value is what the second call returns.
\<close>

definition two_requests ::
  "'row portal \<Rightarrow> string \<Rightarrow> string \<Rightarrow> 'row store \<Rightarrow> (pyerr + 'row list) option" where
  "two_requests get first_url second_url st =
     (case request_data_defaults get first_url st of
        None \<Rightarrow> None
      | Some (_, st1) \<Rightarrow> returned_rows (request_data_defaults get second_url st1))"

text \<open>
  What a call may do to the store: rows are added at the end of the list it was given, no
  other list changes, and a call that returns, returns the list it was given.
\<close>

definition appended :: "ref \<Rightarrow> 'row store \<Rightarrow> (pyerr + ref) \<times> 'row store \<Rightarrow> bool" where
  "appended data st y =
     ((\<exists>rows. snd y data = st data @ rows)
      \<and> (\<forall>r. r \<noteq> data \<longrightarrow> snd y r = st r)
      \<and> (\<forall>r. fst y = Inr r \<longrightarrow> r = data))"

text \<open>The two endpoints of the notebook, each with a table of one row.\<close>

definition assessor_url :: string where
  "assessor_url = ''https://data.cambridgema.gov/resource/crnm-mw9n.json''"

definition crash_url :: string where
  "crash_url = ''https://data.cambridgema.gov/resource/39tu-m8zx.json''"

definition cambridge :: "string portal" where
  "cambridge = paged [(assessor_url, [''parcel'']), (crash_url, [''crash''])]"

section \<open>Module 08, parts 1 and 3: geocoding a column of inputs\<close>

subsection \<open>Decoded JSON\<close>

text \<open>
  \<^verbatim>\<open>response.json()\<close> yields Python values: \<^verbatim>\<open>None\<close>, booleans, numbers, strings,
  lists and dictionaries with string keys.  Numbers are left abstract (\<open>'n\<close>): the code
  only passes them to \<^verbatim>\<open>format\<close>.  A dictionary is kept as the list of its members in
  document order; the decoder keeps the last value of a repeated key.
\<close>

datatype 'n json =
    JNull
  | JBool bool
  | JNum 'n
  | JStr string
  | JArr "'n json list"
  | JObj "(string \<times> 'n json) list"

fun field :: "'n json \<Rightarrow> string \<Rightarrow> 'n json option" where
  "field (JObj members) k = map_of (rev members) k"
| "field _ k = None"

text \<open>\<^verbatim>\<open>v[k]\<close> with a string \<open>k\<close>: only a dictionary accepts a string subscript.\<close>

fun subscript_key :: "'n json \<Rightarrow> string \<Rightarrow> pyerr + 'n json" where
  "subscript_key (JObj members) k =
     (case field (JObj members) k of None \<Rightarrow> Inl KeyError | Some v \<Rightarrow> Inr v)"
| "subscript_key _ k = Inl TypeError"

text \<open>
  \<^verbatim>\<open>v[0]\<close>: the first element of a list, the first character of a string; a decoded
  dictionary has no key \<open>0\<close>; the other values take no subscript.
\<close>

fun subscript_0 :: "'n json \<Rightarrow> pyerr + 'n json" where
  "subscript_0 (JArr []) = Inl IndexError"
| "subscript_0 (JArr (x # xs)) = Inr x"
| "subscript_0 (JStr []) = Inl IndexError"
| "subscript_0 (JStr (c # cs)) = Inr (JStr [c])"
| "subscript_0 (JObj members) = Inl KeyError"
| "subscript_0 _ = Inl TypeError"

text \<open>\<^verbatim>\<open>len(v)\<close>.\<close>

fun py_len :: "'n json \<Rightarrow> pyerr + nat" where
  "py_len (JArr xs) = Inr (length xs)"
| "py_len (JStr s) = Inr (length s)"
| "py_len (JObj members) = Inr (length (remdups (map fst members)))"
| "py_len _ = Inl TypeError"

subsection \<open>geocode\<close>

text \<open>
  \<^verbatim>\<open>
  def geocode(address):
      time.sleep(pause)
      url_template = 'https://maps.googleapis.com/maps/api/geocode/json?address={}&key={}&sensor=false'
      url = url_template.format(address, google_api_key)
      response = requests.get(url)
      data = response.json()

      if len(data['results']) > 0:
          latitude = data['results'][0]['geometry']['location']['lat']
          longitude = data['results'][0]['geometry']['location']['lng']
          return '{},{}'.format(latitude, longitude)
  \<close>
  The service \<open>get_json\<close> stands for \<^verbatim>\<open>requests.get(url).json()\<close>: the decoded body,
  or the exception of a failed request (\<open>ConnectionError\<close>) or of a body that is not JSON
  (\<open>ValueError\<close>).  \<open>fmt\<close> is what \<^verbatim>\<open>format\<close> prints for a value.  A call that
  reaches the end of the body returns \<^verbatim>\<open>None\<close>.
\<close>

definition geocode_url :: "string \<Rightarrow> string \<Rightarrow> string" where
  "geocode_url address google_api_key =
     ''https://maps.googleapis.com/maps/api/geocode/json?address='' @ address
       @ ''&key='' @ google_api_key @ ''&sensor=false''"

definition first_location :: "'n json \<Rightarrow> pyerr + 'n json" where
  "first_location data =
     then_do (subscript_key data ''results'') (\<lambda>results.
     then_do (subscript_0 results) (\<lambda>result.
     then_do (subscript_key result ''geometry'') (\<lambda>geometry.
     subscript_key geometry ''location'')))"

definition geocode ::
  "(string \<Rightarrow> pyerr + 'n json) \<Rightarrow> ('n json \<Rightarrow> string) \<Rightarrow> string \<Rightarrow> string \<Rightarrow> pyerr + string option" where
  "geocode get_json fmt google_api_key address =
     then_do (get_json (geocode_url address google_api_key)) (\<lambda>data.
     then_do (subscript_key data ''results'') (\<lambda>results.
     then_do (py_len results) (\<lambda>n.
       if n > 0 then
         then_do (first_location data) (\<lambda>location.
         then_do (subscript_key location ''lat'') (\<lambda>latitude.
         then_do (first_location data) (\<lambda>location'.
         then_do (subscript_key location' ''lng'') (\<lambda>longitude.
         Inr (Some (fmt latitude @ '','' @ fmt longitude))))))
       else Inr None)))"

subsection \<open>Mapping a function over a column\<close>

text \<open>
  \<^verbatim>\<open>locations['latlng'] = locations['address'].map(geocode)\<close>: the function is applied
  to the values of the column in order, and the new column has one value for each of them.
  An exception raised for one value leaves \<^verbatim>\<open>map\<close>, and no column is assigned.
\<close>

fun series_map :: "('a \<Rightarrow> pyerr + 'b) \<Rightarrow> 'a list \<Rightarrow> pyerr + 'b list" where
  "series_map f [] = Inr []"
| "series_map f (x # xs) =
     (case f x of
        Inl e \<Rightarrow> Inl e
      | Inr y \<Rightarrow> (case series_map f xs of Inl e \<Rightarrow> Inl e | Inr ys \<Rightarrow> Inr (y # ys)))"

subsection \<open>Splitting the coordinates\<close>

text \<open>
  \<^verbatim>\<open>
  locations['latitude'] = locations['latlng'].map(lambda x: x.split(',')[0])
  locations['longitude'] = locations['latlng'].map(lambda x: x.split(',')[1])
  \<close>
  \<^verbatim>\<open>None\<close> has no attribute \<^verbatim>\<open>split\<close>.
\<close>

fun split_at :: "char \<Rightarrow> string \<Rightarrow> string list" where
  "split_at sep [] = [[]]"
| "split_at sep (c # cs) =
     (if c = sep then [] # split_at sep cs
      else (case split_at sep cs of
              [] \<Rightarrow> [[c]]
            | w # ws \<Rightarrow> (c # w) # ws))"

definition item :: "'a list \<Rightarrow> nat \<Rightarrow> pyerr + 'a" where
  "item xs i = (if i < length xs then Inr (xs ! i) else Inl IndexError)"

definition latitude_of :: "string option \<Rightarrow> pyerr + string" where
  "latitude_of x = (case x of None \<Rightarrow> Inl AttributeError | Some s \<Rightarrow> item (split_at CHR '','' s) 0)"

definition longitude_of :: "string option \<Rightarrow> pyerr + string" where
  "longitude_of x = (case x of None \<Rightarrow> Inl AttributeError | Some s \<Rightarrow> item (split_at CHR '','' s) 1)"

subsection \<open>Reverse geocoding through the geocoder library\<close>

text \<open>
  \<^verbatim>\<open>
  def reverse_geopy(latlng):
      time.sleep(pause)
      geolocator = GoogleV3(api_key=google_api_key)
      address, _ = geolocator.reverse(latlng, exactly_one=True)
      return address
  \<close>
  The geocoder's \<^verbatim>\<open>reverse\<close> is a parameter: it returns a location, which unpacks
  into an address and a point, or \<^verbatim>\<open>None\<close> when it finds nothing, or it raises.
  Unpacking \<^verbatim>\<open>None\<close> is a \<open>TypeError\<close>.
\<close>

definition reverse_geopy :: "(string \<Rightarrow> pyerr + (string \<times> 'p) option) \<Rightarrow> string \<Rightarrow> pyerr + string" where
  "reverse_geopy reverse latlng =
     then_do (reverse latlng) (\<lambda>location.
       case location of
         None \<Rightarrow> Inl TypeError
       | Some (address, _) \<Rightarrow> Inr address)"

subsection \<open>Responses that answer a lookup\<close>

text \<open>
  A result that carries the members \<open>geocode\<close> reads: a geometry with a location with a
  latitude and a longitude.
\<close>

definition located :: "'n json \<Rightarrow> bool" where
  "located result =
     (case field result ''geometry'' of
        None \<Rightarrow> False
      | Some geometry \<Rightarrow>
          (case field geometry ''location'' of
             None \<Rightarrow> False
           | Some location \<Rightarrow> field location ''lat'' \<noteq> None \<and> field location ''lng'' \<noteq> None))"

text \<open>The body reports that nothing was found: a dictionary whose results are the empty list.\<close>

definition no_results :: "'n json \<Rightarrow> bool" where
  "no_results data = (field data ''results'' = Some (JArr []))"

text \<open>The body carries results and the first of them is located.\<close>

definition found :: "'n json \<Rightarrow> bool" where
  "found data =
     (case field data ''results'' of
        Some (JArr (result # more)) \<Rightarrow> located result
      | _ \<Rightarrow> False)"

text \<open>
  What a lookup brings back for an address: the decoded body when the request went through
  and the body either reports nothing found or carries a located first result.
\<close>

definition answered :: "(string \<Rightarrow> pyerr + 'n json) \<Rightarrow> string \<Rightarrow> string \<Rightarrow> bool" where
  "answered get_json google_api_key address =
     (case get_json (geocode_url address google_api_key) of
        Inl e \<Rightarrow> False
      | Inr data \<Rightarrow> no_results data \<or> found data)"

text \<open>
  The coordinates a body carries, read member by member: the latitude and the longitude of
  the first result's location, printed and joined by a comma; none when a member is missing.
\<close>

definition coordinates :: "('n json \<Rightarrow> string) \<Rightarrow> 'n json \<Rightarrow> string option" where
  "coordinates fmt data =
     (case field data ''results'' of
        Some (JArr (result # more)) \<Rightarrow>
          Option.bind (field result ''geometry'') (\<lambda>geometry.
          Option.bind (field geometry ''location'') (\<lambda>location.
          Option.bind (field location ''lat'') (\<lambda>latitude.
          Option.bind (field location ''lng'') (\<lambda>longitude.
          Some (fmt latitude @ '','' @ fmt longitude)))))
      | _ \<Rightarrow> None)"

text \<open>
  A geocoding service for three addresses: one it finds, one it does not find, and one for
  which the body of the response is not JSON.  Numbers are kept as their text.
\<close>

definition print_number :: "string json \<Rightarrow> string" where
  "print_number v = (case v of JNum text \<Rightarrow> text | _ \<Rightarrow> [])"

definition fenway_body :: "string json" where
  "fenway_body =
     JObj [(''results'',
              JArr [JObj [(''geometry'',
                             JObj [(''location'',
                                      JObj [(''lat'', JNum ''42.3467''), (''lng'', JNum ''-71.0972'')])])]]),
           (''status'', JStr ''OK'')]"

definition zero_results_body :: "string json" where
  "zero_results_body = JObj [(''results'', JArr []), (''status'', JStr ''ZERO_RESULTS'')]"

definition service :: "string \<Rightarrow> pyerr + string json" where
  "service url =
     (if url = geocode_url ''Fenway Park, Boston, MA'' ''KEY'' then Inr fenway_body
      else if url = geocode_url ''1 Nowhere Rd'' ''KEY'' then Inr zero_results_body
      else Inl ValueError)"

section \<open>Properties of the paging function\<close>

lemma then_do_Inr [simp]: "then_do (Inr x) f = f x"
  by (simp add: then_do_def)

lemma then_do_Inl [simp]: "then_do (Inl e) f = Inl e"
  by (simp add: then_do_def)

text \<open>
  Against a paged portal the function returns: it has appended the table, from the offset
  on, to the list it was given, and it returns that same list.  The induction is on the
  number of rows still to be fetched.
\<close>

lemma request_data_paged:
  assumes "map_of tables endpoint_url = Some table" and "0 \<le> offset"
  shows "request_data (paged tables) endpoint_url 1000 offset data st
         = Some (Inr data, st(data := st data @ drop (nat offset) table))"
  using assms(2)
proof (induction "length table - nat offset" arbitrary: offset st rule: less_induct)
  case less
  let ?page = "take 1000 (drop (nat offset) table)"
  have page: "paged tables endpoint_url 1000 offset = Inr ?page"
    using assms(1) by (simp add: paged_def)
  show ?case
  proof (cases "1000 \<le> length ?page")
    case True
    then have long: "1000 \<le> length table - nat offset" by simp
    have smaller: "length table - nat (offset + 1000) < length table - nat offset"
      using long less.prems by linarith
    have nonneg: "0 \<le> offset + 1000" using less.prems by simp
    have rest: "?page @ drop (nat (offset + 1000)) table = drop (nat offset) table"
    proof -
      have "nat (offset + 1000) = 1000 + nat offset" using less.prems by linarith
      then have "drop (nat (offset + 1000)) table = drop 1000 (drop (nat offset) table)"
        by (simp add: add.commute)
      then show ?thesis by (simp only: append_take_drop_id)
    qed
    show ?thesis
      apply (subst request_data.simps)
      using True less.hyps[OF smaller nonneg] rest
      by (simp add: page Let_def)
  next
    case False
    then have short: "?page = drop (nat offset) table" by simp
    show ?thesis
      apply (subst request_data.simps)
      using False short
      by (simp add: page Let_def)
  qed
qed

text \<open>A caller that passes a list of its own, empty, gets exactly the endpoint's table.\<close>

lemma request_data_own_list:
  assumes "map_of tables endpoint_url = Some table" and "st data = []"
  shows "returned_rows (request_data (paged tables) endpoint_url 1000 0 data st) = Some (Inr table)"
  using assms by (simp add: request_data_paged returned_rows_def)

text \<open>
  With the defaults, the second request returns what the default list held before, the rows
  of the first endpoint and the rows of its own endpoint, in this order.
\<close>

lemma two_requests_paged:
  assumes "map_of tables first_url = Some first_table"
    and "map_of tables second_url = Some second_table"
  shows "two_requests (paged tables) first_url second_url st
         = Some (Inr (st default_data @ first_table @ second_table))"
  using assms
  by (simp add: two_requests_def request_data_defaults_def request_data_paged returned_rows_def)

text \<open>
  Whatever the portal serves, a call that comes to an end has only appended to its list.
  The proof follows the recursion of the function.
\<close>

lemma request_data_appends:
  assumes "request_data get endpoint_url limit offset data st = Some y"
  shows "appended data st y"
proof (rule request_data.raw_induct
    [where P = "\<lambda>get endpoint_url limit offset data st y. appended data st y", OF _ assms],
    goal_cases)
  case (1 call get endpoint_url limit offset data st y)
  show ?case
  proof (cases "get endpoint_url limit offset")
    case (Inl e)
    with 1(2) show ?thesis by (auto simp: appended_def)
  next
    case (Inr rows)
    show ?thesis
    proof (cases "limit \<le> int (length rows)")
      case True
      with 1(2) Inr
      have "call get endpoint_url 1000 (offset + limit) data (st(data := st data @ rows)) = Some y"
        by (simp add: Let_def)
      from 1(1)[OF this] show ?thesis by (auto simp: appended_def)
    next
      case False
      with 1(2) Inr show ?thesis by (auto simp: Let_def appended_def)
    qed
  qed
qed

text \<open>
  So on every portal the rows of the second request with defaults begin with all the rows
  the first request returned.
\<close>

lemma two_requests_keeps_first_rows:
  assumes "request_data_defaults get first_url st = Some (Inr r1, st1)"
    and "two_requests get first_url second_url st = Some (Inr rows2)"
  shows "\<exists>more. rows2 = st1 r1 @ more"
proof -
  from assms(1) have r1: "r1 = default_data"
    using request_data_appends[of get first_url 1000 0 default_data st "(Inr r1, st1)"]
    by (simp add: request_data_defaults_def appended_def)
  from assms obtain res2 st2 where s: "request_data_defaults get second_url st1 = Some (res2, st2)"
    and rr: "returned_rows (Some (res2, st2)) = Some (Inr rows2)"
    by (cases "request_data_defaults get second_url st1")
      (auto simp: two_requests_def returned_rows_def)
  from rr obtain r2 where r2: "res2 = Inr r2" "rows2 = st2 r2"
    by (cases res2) (auto simp: returned_rows_def)
  from request_data_appends[of get second_url 1000 0 default_data st1 "(res2, st2)"] s r2
  have "r2 = default_data" "\<exists>rows. st2 default_data = st1 default_data @ rows"
    by (auto simp: request_data_defaults_def appended_def)
  with r1 r2 show ?thesis by auto
qed

text \<open>
  Claim C10, evaluated on the code.  The claim: two successive calls of
  \<^verbatim>\<open>request_data\<close> that leave \<^verbatim>\<open>data\<close> at its default are independent,
  and the second returns exactly the rows its own endpoint serves.  On a portal whose
  assessor table is the one row \<open>parcel\<close> and whose crash table is the one row \<open>crash\<close>,
  the request for the crash data that follows the request for the assessor data returns
  both rows: the default list is one object, and the first call has left its rows in it.
\<close>

theorem request_data_second_call_returns_first_rows_too:
  "two_requests cambridge assessor_url crash_url store_after_def = Some (Inr [''parcel'', ''crash''])"
proof -
  have different: "assessor_url \<noteq> crash_url"
    by (simp add: assessor_url_def crash_url_def)
  have first: "map_of [(assessor_url, [''parcel'']), (crash_url, [''crash''])] assessor_url = Some [''parcel'']"
    by simp
  have second: "map_of [(assessor_url, [''parcel'']), (crash_url, [''crash''])] crash_url = Some [''crash'']"
    using different by simp
  show ?thesis
    unfolding cambridge_def
    by (simp only: two_requests_paged[OF first second] store_after_def_def append_Nil append_Cons)
qed

section \<open>Properties of the geocoding batch\<close>

lemma subscript_key_field: "field v k = Some x \<Longrightarrow> subscript_key v k = Inr x"
  by (cases v) simp_all

lemma geocode_nothing_found:
  assumes "get_json (geocode_url address key) = Inr data" and "no_results data"
  shows "geocode get_json fmt key address = Inr None"
proof -
  from assms(2) have "subscript_key data ''results'' = Inr (JArr [])"
    by (simp add: no_results_def subscript_key_field)
  with assms(1) show ?thesis
    by (simp add: geocode_def)
qed

lemma geocode_found:
  assumes "get_json (geocode_url address key) = Inr data"
    and "field data ''results'' = Some (JArr (result # more))"
    and "field result ''geometry'' = Some geometry"
    and "field geometry ''location'' = Some location"
    and "field location ''lat'' = Some latitude"
    and "field location ''lng'' = Some longitude"
  shows "geocode get_json fmt key address = Inr (Some (fmt latitude @ '','' @ fmt longitude))"
proof -
  have loc: "first_location data = Inr location"
    using assms(2-4) by (simp add: first_location_def subscript_key_field)
  show ?thesis
    using assms(1,2,5,6) loc by (simp add: geocode_def subscript_key_field)
qed

lemma coordinates_no_results: "no_results data \<Longrightarrow> coordinates fmt data = None"
  by (simp add: coordinates_def no_results_def)

lemma geocode_found_coordinates:
  assumes "get_json (geocode_url address key) = Inr data" and "found data"
  shows "geocode get_json fmt key address = Inr (coordinates fmt data)
         \<and> coordinates fmt data \<noteq> None"
proof -
  from assms(2) obtain result more where r: "field data ''results'' = Some (JArr (result # more))"
    and l: "located result"
    by (auto simp: found_def split: option.splits json.splits list.splits)
  from l obtain geometry location latitude longitude where
    f: "field result ''geometry'' = Some geometry" "field geometry ''location'' = Some location"
    "field location ''lat'' = Some latitude" "field location ''lng'' = Some longitude"
    by (auto simp: located_def split: option.splits)
  have c: "coordinates fmt data = Some (fmt latitude @ '','' @ fmt longitude)"
    using r f by (simp add: coordinates_def)
  from geocode_found[of get_json address key data, OF assms(1) r f] c show ?thesis by simp
qed

lemma found_not_no_results: "found data \<Longrightarrow> \<not> no_results data"
  by (auto simp: found_def no_results_def)

text \<open>An exception of the request is the exception of \<open>geocode\<close>.\<close>

lemma geocode_raises:
  "get_json (geocode_url address key) = Inl e \<Longrightarrow> geocode get_json fmt key address = Inl e"
  by (simp add: geocode_def)

lemma geocode_answered:
  assumes "answered get_json key address"
  shows "\<exists>data. get_json (geocode_url address key) = Inr data
             \<and> geocode get_json fmt key address = Inr (coordinates fmt data)
             \<and> (coordinates fmt data = None) = no_results data"
proof -
  from assms obtain data where d: "get_json (geocode_url address key) = Inr data"
    and c: "no_results data \<or> found data"
    by (auto simp: answered_def split: sum.splits)
  from c show ?thesis
  proof
    assume n: "no_results data"
    from d geocode_nothing_found[of get_json address key data, OF d n]
      coordinates_no_results[OF n] n
    show ?thesis by simp
  next
    assume f: "found data"
    from d geocode_found_coordinates[of get_json address key data, OF d f]
      found_not_no_results[OF f]
    show ?thesis by simp
  qed
qed

text \<open>
  \<^verbatim>\<open>map\<close> over a column: when the function returns for every value, the new column has
  the function's value in each place; when it raises for one value, \<^verbatim>\<open>map\<close> raises.
\<close>

lemma series_map_all_return:
  assumes "\<forall>x\<in>set xs. \<exists>y. f x = Inr y"
  shows "\<exists>ys. series_map f xs = Inr ys \<and> length ys = length xs
              \<and> (\<forall>i<length xs. f (xs ! i) = Inr (ys ! i))"
  using assms
proof (induction xs)
  case Nil
  then show ?case by simp
next
  case (Cons x xs)
  then obtain y where y: "f x = Inr y" by auto
  from Cons obtain ys where ys: "series_map f xs = Inr ys" "length ys = length xs"
    "\<forall>i<length xs. f (xs ! i) = Inr (ys ! i)" by auto
  have "\<forall>i<length (x # xs). f ((x # xs) ! i) = Inr ((y # ys) ! i)"
    using y ys(3) by (auto simp: nth_Cons split: nat.splits)
  with y ys show ?case by simp
qed

lemma series_map_raises:
  assumes "x \<in> set xs" and "f x = Inl e"
  shows "\<exists>e'. series_map f xs = Inl e'"
  using assms by (induction xs) (auto split: sum.splits)

lemma geocode_batch_raises:
  assumes "address \<in> set addresses" and "get_json (geocode_url address key) = Inl e"
  shows "\<exists>e'. series_map (geocode get_json fmt key) addresses = Inl e'"
proof -
  have "geocode get_json fmt key address = Inl e"
    using assms(2) by (simp add: geocode_raises)
  with assms(1) show ?thesis by (rule series_map_raises)
qed

text \<open>
  The steps after a lookup that found nothing: the column of coordinates holds
  \<^verbatim>\<open>None\<close> for that input, and splitting the column raises; the geocoder library's
  \<^verbatim>\<open>reverse\<close> returns \<^verbatim>\<open>None\<close>, and unpacking it raises.
\<close>

lemma latitude_of_column_with_None:
  "series_map latitude_of [Some ''42.3467,-71.0972'', None] = Inl AttributeError"
  by (simp add: latitude_of_def item_def)

lemma latitude_longitude_of_coordinates:
  "series_map latitude_of [Some ''42.3467,-71.0972''] = Inr [''42.3467'']
   \<and> series_map longitude_of [Some ''42.3467,-71.0972''] = Inr [''-71.0972'']"
  by (simp add: latitude_of_def longitude_of_def item_def)

lemma reverse_geopy_nothing_found:
  "reverse latlng = Inr None \<Longrightarrow> reverse_geopy reverse latlng = Inl TypeError"
  by (simp add: reverse_geopy_def)

lemma reverse_geopy_found:
  "reverse latlng = Inr (Some (address, point)) \<Longrightarrow> reverse_geopy reverse latlng = Inr address"
  by (simp add: reverse_geopy_def)

text \<open>
  Claim C9 as stated fails.  The claim: in a batch of independent geocoding lookups a
  non-success response for one input does not abort the batch, and every input ends
  annotated with a result or a failure marker.  Here the second of three addresses gets a
  response whose body is not JSON: decoding raises \<open>ValueError\<close>, no call is guarded, and
  the whole \<^verbatim>\<open>map\<close> raises; no input is annotated, the first and the third included.
\<close>

theorem geocode_batch_aborts_on_undecodable_body:
  "series_map (geocode service print_number ''KEY'')
     [''Fenway Park, Boston, MA'', ''Snell Library, Boston, MA'', ''1 Nowhere Rd'']
   = Inl ValueError"
  by (simp add: geocode_def service_def geocode_url_def fenway_body_def first_location_def
      print_number_def)

text \<open>
  Claim C9, amended.  When every lookup of the batch is answered, that is, the decoded body
  either carries an empty list of results or a first result with a located geometry, then
  \<^verbatim>\<open>locations['address'].map(geocode)\<close> is not aborted: it returns a column with
  one annotation for each input, the coordinates its body carries, and the annotation is the
  failure marker \<^verbatim>\<open>None\<close> exactly for the inputs whose body reports no results.
\<close>

theorem geocode_batch_annotates_every_input:
  assumes "\<forall>address\<in>set addresses. answered get_json key address"
  shows "\<exists>latlng. series_map (geocode get_json fmt key) addresses = Inr latlng
           \<and> length latlng = length addresses
           \<and> (\<forall>i<length addresses. \<exists>data.
                 get_json (geocode_url (addresses ! i) key) = Inr data
                 \<and> latlng ! i = coordinates fmt data
                 \<and> (latlng ! i = None) = no_results data)"
proof -
  have "\<forall>address\<in>set addresses. \<exists>r. geocode get_json fmt key address = Inr r"
    using assms geocode_answered by blast
  from series_map_all_return[OF this] obtain latlng where
    m: "series_map (geocode get_json fmt key) addresses = Inr latlng"
    and n: "length latlng = length addresses"
    and each: "\<forall>i<length addresses. geocode get_json fmt key (addresses ! i) = Inr (latlng ! i)"
    by blast
  have "\<exists>data. get_json (geocode_url (addresses ! i) key) = Inr data
          \<and> latlng ! i = coordinates fmt data
          \<and> (latlng ! i = None) = no_results data"
    if "i < length addresses" for i
  proof -
    from that assms have "answered get_json key (addresses ! i)" by simp
    from geocode_answered[OF this, of fmt] each that show ?thesis by auto
  qed
  with m n show ?thesis by blast
qed

text \<open>
  The amended claim at a batch of two addresses, the first found and the second not: both
  lookups are answered, and the column holds the coordinates of the first body and
  \<^verbatim>\<open>None\<close> for the second, which reports no results.
\<close>

theorem geocode_batch_annotates_every_input_witness:
  "answered service ''KEY'' ''Fenway Park, Boston, MA''
   \<and> answered service ''KEY'' ''1 Nowhere Rd''
   \<and> coordinates print_number fenway_body = Some ''42.3467,-71.0972''
   \<and> no_results zero_results_body
   \<and> series_map (geocode service print_number ''KEY'') [''Fenway Park, Boston, MA'', ''1 Nowhere Rd'']
       = Inr [Some ''42.3467,-71.0972'', None]"
proof -
  have fenway: "answered service ''KEY'' ''Fenway Park, Boston, MA''"
    by (simp add: answered_def service_def found_def located_def fenway_body_def no_results_def)
  have nowhere: "answered service ''KEY'' ''1 Nowhere Rd''"
    by (simp add: answered_def service_def geocode_url_def zero_results_body_def no_results_def)
  have all: "\<forall>address\<in>set [''Fenway Park, Boston, MA'', ''1 Nowhere Rd'']. answered service ''KEY'' address"
    using fenway nowhere by simp
  have bodies: "coordinates print_number fenway_body = Some ''42.3467,-71.0972''
                \<and> no_results zero_results_body"
    by (simp add: coordinates_def fenway_body_def zero_results_body_def no_results_def
        print_number_def)
  have column: "series_map (geocode service print_number ''KEY'') [''Fenway Park, Boston, MA'', ''1 Nowhere Rd'']
                = Inr [Some ''42.3467,-71.0972'', None]"
    using geocode_batch_annotates_every_input
      [of "[''Fenway Park, Boston, MA'', ''1 Nowhere Rd'']" service "''KEY''" print_number, OF all]
    by (simp add: geocode_def service_def geocode_url_def fenway_body_def zero_results_body_def
        first_location_def print_number_def)
  from fenway nowhere bodies column show ?thesis by blast
qed

end
